theory Spec2Isabelle
  imports Complex_Main "HOL-Library.Word"
begin

section \<open>Status codes and the code registry (codes.go)\<close>

text \<open>
  Go strings are byte sequences, and so is \<^typ>\<open>string\<close>: the Chinese messages of the
  source are written as their UTF-8 bytes. Business codes are \<open>int32\<close>: a 32-bit word,
  read as a signed number by \<^const>\<open>sint\<close>.
\<close>

type_synonym int32 = "32 word"

record CodeDefinition =
  Message :: string
  IsAffectStability :: bool

definition CodeSuccess :: int32 where "CodeSuccess = 200"
definition CodeInvalidParam :: int32 where "CodeInvalidParam = 1001"
definition CodeUnauthorized :: int32 where "CodeUnauthorized = 1002"
definition CodeForbidden :: int32 where "CodeForbidden = 1003"
definition CodeNotFound :: int32 where "CodeNotFound = 1004"
definition CodeAlreadyExists :: int32 where "CodeAlreadyExists = 1005"
definition CodeInternalError :: int32 where "CodeInternalError = 1006"
definition CodeRequestTimeout :: int32 where "CodeRequestTimeout = 1007"
definition CodeUserNotFound :: int32 where "CodeUserNotFound = 2001"
definition CodeUserAlreadyExist :: int32 where "CodeUserAlreadyExist = 2002"
definition CodeRateLimitExceeded :: int32 where "CodeRateLimitExceeded = 2003"
definition CodeTokenExpired :: int32 where "CodeTokenExpired = 2004"

text \<open>The default messages, byte for byte.\<close>

definition msg_InvalidParam :: string where
  "msg_InvalidParam = [CHR 0xE5, CHR 0x8F, CHR 0x82, CHR 0xE6, CHR 0x95, CHR 0xB0,
     CHR 0xE6, CHR 0x97, CHR 0xA0, CHR 0xE6, CHR 0x95, CHR 0x88]"

definition msg_Unauthorized :: string where
  "msg_Unauthorized = [CHR 0xE6, CHR 0x9C, CHR 0xAA, CHR 0xE6, CHR 0x8E, CHR 0x88,
     CHR 0xE6, CHR 0x9D, CHR 0x83]"

definition msg_Forbidden :: string where
  "msg_Forbidden = [CHR 0xE7, CHR 0xA6, CHR 0x81, CHR 0xE6, CHR 0xAD, CHR 0xA2,
     CHR 0xE8, CHR 0xAE, CHR 0xBF, CHR 0xE9, CHR 0x97, CHR 0xAE]"

definition msg_NotFound :: string where
  "msg_NotFound = [CHR 0xE8, CHR 0xB5, CHR 0x84, CHR 0xE6, CHR 0xBA, CHR 0x90,
     CHR 0xE6, CHR 0x9C, CHR 0xAA, CHR 0xE6, CHR 0x89, CHR 0xBE, CHR 0xE5, CHR 0x88, CHR 0xB0]"

definition msg_AlreadyExists :: string where
  "msg_AlreadyExists = [CHR 0xE8, CHR 0xB5, CHR 0x84, CHR 0xE6, CHR 0xBA, CHR 0x90,
     CHR 0xE5, CHR 0xB7, CHR 0xB2, CHR 0xE5, CHR 0xAD, CHR 0x98, CHR 0xE5, CHR 0x9C, CHR 0xA8]"

definition msg_InternalError :: string where
  "msg_InternalError = [CHR 0xE5, CHR 0x86, CHR 0x85, CHR 0xE9, CHR 0x83, CHR 0xA8,
     CHR 0xE6, CHR 0x9C, CHR 0x8D, CHR 0xE5, CHR 0x8A, CHR 0xA1, CHR 0xE5, CHR 0x99, CHR 0xA8,
     CHR 0xE9, CHR 0x94, CHR 0x99, CHR 0xE8, CHR 0xAF, CHR 0xAF]"

definition msg_UserNotFound :: string where
  "msg_UserNotFound = [CHR 0xE7, CHR 0x94, CHR 0xA8, CHR 0xE6, CHR 0x88, CHR 0xB7,
     CHR 0xE4, CHR 0xB8, CHR 0x8D, CHR 0xE5, CHR 0xAD, CHR 0x98, CHR 0xE5, CHR 0x9C, CHR 0xA8]"

definition msg_UserAlreadyExist :: string where
  "msg_UserAlreadyExist = [CHR 0xE7, CHR 0x94, CHR 0xA8, CHR 0xE6, CHR 0x88, CHR 0xB7,
     CHR 0xE5, CHR 0xB7, CHR 0xB2, CHR 0xE5, CHR 0xAD, CHR 0x98, CHR 0xE5, CHR 0x9C, CHR 0xA8]"

definition msg_RateLimitExceeded :: string where
  "msg_RateLimitExceeded = [CHR 0xE8, CHR 0xAF, CHR 0xB7, CHR 0xE6, CHR 0xB1, CHR 0x82,
     CHR 0xE8, CHR 0xBF, CHR 0x87, CHR 0xE4, CHR 0xBA, CHR 0x8E, CHR 0xE9, CHR 0xA2, CHR 0x91,
     CHR 0xE7, CHR 0xB9, CHR 0x81]"

definition msg_TokenExpired :: string where
  "msg_TokenExpired = [CHR 0xE8, CHR 0xAE, CHR 0xA4, CHR 0xE8, CHR 0xAF, CHR 0x81,
     CHR 0xE4, CHR 0xBB, CHR 0xA4, CHR 0xE7, CHR 0x89, CHR 0x8C, CHR 0xE5, CHR 0xB7, CHR 0xB2,
     CHR 0xE8, CHR 0xBF, CHR 0x87, CHR 0xE6, CHR 0x9C, CHR 0x9F]"

definition msg_RequestTimeout :: string where
  "msg_RequestTimeout = [CHR 0xE8, CHR 0xAF, CHR 0xB7, CHR 0xE6, CHR 0xB1, CHR 0x82,
     CHR 0xE8, CHR 0xB6, CHR 0x85, CHR 0xE6, CHR 0x97, CHR 0xB6]"

text \<open>The message of the default definition that \<open>GetCodeDefinition\<close> returns for a code
  that is not registered (the Chinese for "unknown error").\<close>

definition msg_unknown :: string where
  "msg_unknown = [CHR 0xE6, CHR 0x9C, CHR 0xAA, CHR 0xE7, CHR 0x9F, CHR 0xA5,
     CHR 0xE9, CHR 0x94, CHR 0x99, CHR 0xE8, CHR 0xAF, CHR 0xAF]"

text \<open>The map literal that initialises the package variable \<open>CodeDefinitions\<close>. The variable
  is mutable (other packages add entries), so the registry is a field of the program state
  below and this literal is its initial value.\<close>

definition CodeDefinitions_literal :: "int32 \<rightharpoonup> CodeDefinition" where
  "CodeDefinitions_literal =
     [CodeSuccess \<mapsto> \<lparr>Message = ''success'', IsAffectStability = False\<rparr>,
      CodeInvalidParam \<mapsto> \<lparr>Message = msg_InvalidParam, IsAffectStability = False\<rparr>,
      CodeUnauthorized \<mapsto> \<lparr>Message = msg_Unauthorized, IsAffectStability = False\<rparr>,
      CodeForbidden \<mapsto> \<lparr>Message = msg_Forbidden, IsAffectStability = False\<rparr>,
      CodeNotFound \<mapsto> \<lparr>Message = msg_NotFound, IsAffectStability = False\<rparr>,
      CodeAlreadyExists \<mapsto> \<lparr>Message = msg_AlreadyExists, IsAffectStability = False\<rparr>,
      CodeInternalError \<mapsto> \<lparr>Message = msg_InternalError, IsAffectStability = True\<rparr>,
      CodeUserNotFound \<mapsto> \<lparr>Message = msg_UserNotFound, IsAffectStability = False\<rparr>,
      CodeUserAlreadyExist \<mapsto> \<lparr>Message = msg_UserAlreadyExist, IsAffectStability = False\<rparr>,
      CodeRateLimitExceeded \<mapsto> \<lparr>Message = msg_RateLimitExceeded, IsAffectStability = False\<rparr>,
      CodeTokenExpired \<mapsto> \<lparr>Message = msg_TokenExpired, IsAffectStability = False\<rparr>,
      CodeRequestTimeout \<mapsto> \<lparr>Message = msg_RequestTimeout, IsAffectStability = False\<rparr>]"

section \<open>Program state\<close>

text \<open>
  The code shares and mutates objects: an \<open>Option\<close> rewrites the message and the metadata
  of the \<open>statusError\<close> a wrapper points to, \<open>NewStatusError\<close> keeps the caller's map, and
  \<open>Extra()\<close> hands out maps. So objects live in a store. An address is an index into the
  list of objects of its kind; allocation appends, so a new address is the length of the
  list and differs from every address in use. A map reference is \<open>None\<close> for Go's nil map.
\<close>

type_synonym addr = nat

record Extension =
  ext_IsAffectStability :: bool
  ext_Extra :: "addr option"

record statusError =
  statusCode :: int32
  message :: string
  ext :: Extension

record state =
  CodeDefinitions :: "int32 \<rightharpoonup> CodeDefinition"
  statusErrors :: "statusError list"
  maps :: "(string \<rightharpoonup> string) list"
  withStatuses :: nat

definition initial_state :: state where
  "initial_state = \<lparr>CodeDefinitions = CodeDefinitions_literal, statusErrors = [],
     maps = [], withStatuses = 0\<rparr>"

section \<open>Registry lookups (errors.go)\<close>

definition GetCodeDefinition :: "state \<Rightarrow> int32 \<Rightarrow> CodeDefinition" where
  "GetCodeDefinition s code =
     (case CodeDefinitions s code of
        Some def \<Rightarrow> def
      | None \<Rightarrow> \<lparr>Message = msg_unknown, IsAffectStability = True\<rparr>)"

definition GetMessage :: "state \<Rightarrow> int32 \<Rightarrow> string \<Rightarrow> string" where
  "GetMessage s code customMessage =
     (if customMessage \<noteq> [] then customMessage
      else Message (GetCodeDefinition s code))"

section \<open>Errors as values\<close>

text \<open>
  A Go \<open>error\<close> (or \<open>StatusError\<close>) interface value is nil, modelled by \<open>None\<close>, or
  holds a value of some dynamic type:
  \<^item> \<open>PStatusError a\<close>: the pointer \<open>*statusError\<close> to the object at address \<open>a\<close>;
  \<^item> \<open>PWithStatus i a st c\<close>: a pointer \<open>*withStatus\<close>. The fields \<open>status\<close>, \<open>stack\<close> and
    \<open>cause\<close> of a \<open>withStatus\<close> are written only by the struct literal that creates it
    (the options write through \<open>ws.status\<close>, into the \<open>statusError\<close>), so the pointer is
    modelled by the identity \<open>i\<close> of the object together with its three fields. Two
    wrapper pointers are the same pointer when their identities are equal. Every struct
    literal of the source sets \<open>status\<close> to a non-nil pointer, so \<open>status\<close> is an address;
  \<^item> \<open>OtherStatus i v u\<close>: a value of a type of another package that implements
    \<open>StatusError\<close>; \<open>v\<close> holds what its four methods return and \<open>u\<close> what its \<open>Unwrap\<close>
    returns (\<open>None\<close> also when it has no such method). Types with an \<open>As\<close> method of
    their own or with \<open>Unwrap() []error\<close> are outside the model;
  \<^item> \<open>OtherError i u\<close>: any other error, such as the result of \<open>errors.New\<close>.
\<close>

record view =
  v_Code :: int32
  v_Msg :: string
  v_IsAffectStability :: bool
  v_Extra :: "addr option"

datatype err =
    PStatusError addr
  | PWithStatus (ident: nat) (status: addr) (stack: string) (cause: "err option")
  | OtherStatus nat view "err option"
  | OtherError nat "err option"

text \<open>\<open>errors.As(err, &ws)\<close> with \<open>ws\<close> of type \<open>*withStatus\<close>, and \<open>errors.As(err, &se)\<close>
  with \<open>se\<close> of type \<open>*statusError\<close>: the first error of the \<open>Unwrap\<close> chain that has the
  type of the target. A \<open>*statusError\<close> has no \<open>Unwrap\<close> method; that of a \<open>*withStatus\<close>
  returns its cause.\<close>

fun As_withStatus :: "err \<Rightarrow> err option" where
  "As_withStatus (PStatusError a) = None"
| "As_withStatus (PWithStatus i a st c) = Some (PWithStatus i a st c)"
| "As_withStatus (OtherStatus i v u) =
     (case u of None \<Rightarrow> None | Some e \<Rightarrow> As_withStatus e)"
| "As_withStatus (OtherError i u) =
     (case u of None \<Rightarrow> None | Some e \<Rightarrow> As_withStatus e)"

fun As_statusError :: "err \<Rightarrow> addr option" where
  "As_statusError (PStatusError a) = Some a"
| "As_statusError (PWithStatus i a st c) =
     (case c of None \<Rightarrow> None | Some e \<Rightarrow> As_statusError e)"
| "As_statusError (OtherStatus i v u) =
     (case u of None \<Rightarrow> None | Some e \<Rightarrow> As_statusError e)"
| "As_statusError (OtherError i u) =
     (case u of None \<Rightarrow> None | Some e \<Rightarrow> As_statusError e)"

subsection \<open>Allocation\<close>

text \<open>\<open>make(map[string]string)\<close>, \<open>&statusError{...}\<close> and \<open>&withStatus{...}\<close>.\<close>

definition make_map :: "state \<Rightarrow> state \<times> addr" where
  "make_map s = (s\<lparr>maps := maps s @ [Map.empty]\<rparr>, length (maps s))"

definition new_statusError :: "state \<Rightarrow> statusError \<Rightarrow> state \<times> addr" where
  "new_statusError s se =
     (s\<lparr>statusErrors := statusErrors s @ [se]\<rparr>, length (statusErrors s))"

definition new_withStatus :: "state \<Rightarrow> addr \<Rightarrow> string \<Rightarrow> err option \<Rightarrow> state \<times> err" where
  "new_withStatus s se st c =
     (s\<lparr>withStatuses := Suc (withStatuses s)\<rparr>, PWithStatus (withStatuses s) se st c)"

text \<open>The contents of the map behind a reference; a nil map reads as the empty map.\<close>

definition contents :: "state \<Rightarrow> addr option \<Rightarrow> (string \<rightharpoonup> string)" where
  "contents s r = (case r of None \<Rightarrow> Map.empty | Some m \<Rightarrow> maps s ! m)"

text \<open>\<open>m[k] = v\<close> for each pair of \<open>kv\<close>, on the map object at \<open>m\<close>.\<close>

definition store_all :: "state \<Rightarrow> addr \<Rightarrow> (string \<rightharpoonup> string) \<Rightarrow> state" where
  "store_all s m kv = s\<lparr>maps := (maps s)[m := (maps s ! m) ++ kv]\<rparr>"

subsection \<open>Methods of \<open>*statusError\<close> (errors.go)\<close>

definition statusError_Code :: "state \<Rightarrow> addr \<Rightarrow> int32" where
  "statusError_Code s e = statusCode (statusErrors s ! e)"

definition statusError_IsAffectStability :: "state \<Rightarrow> addr \<Rightarrow> bool" where
  "statusError_IsAffectStability s e = ext_IsAffectStability (ext (statusErrors s ! e))"

definition statusError_Msg :: "state \<Rightarrow> addr \<Rightarrow> string" where
  "statusError_Msg s e = message (statusErrors s ! e)"

definition statusError_Extra :: "state \<Rightarrow> addr \<Rightarrow> state \<times> addr option" where
  "statusError_Extra s e =
     (case ext_Extra (ext (statusErrors s ! e)) of
        None \<Rightarrow> (let (s1, m) = make_map s in (s1, Some m))
      | Some m \<Rightarrow> (s, Some m))"

subsection \<open>Methods of \<open>*withStatus\<close>\<close>

definition withStatus_Code :: "state \<Rightarrow> err \<Rightarrow> int32" where
  "withStatus_Code s w = statusCode (statusErrors s ! status w)"

definition withStatus_IsAffectStability :: "state \<Rightarrow> err \<Rightarrow> bool" where
  "withStatus_IsAffectStability s w = ext_IsAffectStability (ext (statusErrors s ! status w))"

definition withStatus_Msg :: "state \<Rightarrow> err \<Rightarrow> string" where
  "withStatus_Msg s w = message (statusErrors s ! status w)"

definition withStatus_Extra :: "state \<Rightarrow> err \<Rightarrow> state \<times> addr option" where
  "withStatus_Extra s w =
     (case ext_Extra (ext (statusErrors s ! status w)) of
        None \<Rightarrow> (let (s1, m) = make_map s in (s1, Some m))
      | Some inner \<Rightarrow>
          (let (s1, extra) = make_map s;
               s2 = store_all s1 extra (maps s1 ! inner);
               s3 = (if stack w \<noteq> [] then store_all s2 extra [''stack'' \<mapsto> stack w] else s2)
           in (s3, Some extra)))"

definition withStatus_Unwrap :: "err \<Rightarrow> err option" where
  "withStatus_Unwrap w = cause w"

definition withStatus_Stack :: "err \<Rightarrow> string" where
  "withStatus_Stack w = stack w"

definition withStatus_Cause :: "err \<Rightarrow> err option" where
  "withStatus_Cause w = cause w"

subsection \<open>Calls through the \<open>StatusError\<close> interface\<close>

text \<open>Dynamic dispatch on the type of the value. An \<open>OtherError\<close> does not implement the
  interface: the Go type checker rejects such a call, and the functions have no equation
  for it.\<close>

fun StatusError_Code :: "state \<Rightarrow> err \<Rightarrow> int32" where
  "StatusError_Code s (PStatusError a) = statusError_Code s a"
| "StatusError_Code s (PWithStatus i a st c) = withStatus_Code s (PWithStatus i a st c)"
| "StatusError_Code s (OtherStatus i v u) = v_Code v"

fun StatusError_IsAffectStability :: "state \<Rightarrow> err \<Rightarrow> bool" where
  "StatusError_IsAffectStability s (PStatusError a) = statusError_IsAffectStability s a"
| "StatusError_IsAffectStability s (PWithStatus i a st c) =
     withStatus_IsAffectStability s (PWithStatus i a st c)"
| "StatusError_IsAffectStability s (OtherStatus i v u) = v_IsAffectStability v"

fun StatusError_Msg :: "state \<Rightarrow> err \<Rightarrow> string" where
  "StatusError_Msg s (PStatusError a) = statusError_Msg s a"
| "StatusError_Msg s (PWithStatus i a st c) = withStatus_Msg s (PWithStatus i a st c)"
| "StatusError_Msg s (OtherStatus i v u) = v_Msg v"

fun StatusError_Extra :: "state \<Rightarrow> err \<Rightarrow> state \<times> addr option" where
  "StatusError_Extra s (PStatusError a) = statusError_Extra s a"
| "StatusError_Extra s (PWithStatus i a st c) = withStatus_Extra s (PWithStatus i a st c)"
| "StatusError_Extra s (OtherStatus i v u) = (s, v_Extra v)"

subsection \<open>\<open>NewStatusError\<close>\<close>

text \<open>
  The parameter \<open>data interface{}\<close>: nil, a \<open>map[string]interface{}\<close> (its entries; the
  values are of some type \<open>'v\<close>, and \<open>fmt\<close> stands for \<open>fmt.Sprintf("%v", _)\<close> on them), a
  \<open>map[string]string\<close> (a map reference, nil or not), or a value of any other type.
\<close>

datatype 'v data =
    DataNil
  | DataAnyMap "string \<rightharpoonup> 'v"
  | DataStringMap "addr option"
  | DataOther

text \<open>The conversion of \<open>data\<close> to the metadata map, which the source writes out twice (in
  \<open>NewStatusError\<close> and in the last branch of \<open>WrapWithStatus\<close>).\<close>

definition convert_data :: "('v \<Rightarrow> string) \<Rightarrow> state \<Rightarrow> 'v data \<Rightarrow> state \<times> addr option" where
  "convert_data fmt s d =
     (let (s1, extra) = make_map s in
      case d of
        DataNil \<Rightarrow> (s1, Some extra)
      | DataAnyMap dataMap \<Rightarrow> (store_all s1 extra (\<lambda>k. map_option fmt (dataMap k)), Some extra)
      | DataStringMap dataMap \<Rightarrow> (s1, dataMap)
      | DataOther \<Rightarrow> (s1, Some extra))"

definition NewStatusError ::
  "('v \<Rightarrow> string) \<Rightarrow> state \<Rightarrow> int32 \<Rightarrow> string \<Rightarrow> 'v data \<Rightarrow> state \<times> err" where
  "NewStatusError fmt s code msg d =
     (let msg1 = (if msg = [] then GetMessage s code [] else msg);
          def = GetCodeDefinition s code;
          (s1, extra) = convert_data fmt s d;
          (s2, a) = new_statusError s1
             \<lparr>statusCode = code, message = msg1,
              ext = \<lparr>ext_IsAffectStability = IsAffectStability def, ext_Extra = extra\<rparr>\<rparr>
      in (s2, PStatusError a))"

section \<open>Stack-wrapped errors\<close>

text \<open>
  \<open>captureStack(2)\<close> reads the call stack of the running goroutine, which is not part of
  the model: each function that captures a stack takes the captured string as its
  argument \<open>st\<close>. (\<open>captureStack\<close> returns the empty string only when \<open>runtime.Callers\<close>
  finds no frame.)
\<close>

subsection \<open>\<open>WithStack\<close>\<close>

definition WithStack :: "state \<Rightarrow> string \<Rightarrow> err option \<Rightarrow> state \<times> err option" where
  "WithStack s st err =
     (case err of
        None \<Rightarrow> (s, None)
      | Some e \<Rightarrow>
          (case As_withStatus e of
             Some ws \<Rightarrow> (s, Some ws)
           | None \<Rightarrow>
               (case As_statusError e of
                  Some se \<Rightarrow> (let (s1, w) = new_withStatus s se st None in (s1, Some w))
                | None \<Rightarrow>
                    (let c = StatusError_Code s e;
                         m = StatusError_Msg s e;
                         b = StatusError_IsAffectStability s e;
                         (s1, x) = StatusError_Extra s e;
                         (s2, a) = new_statusError s1
                            \<lparr>statusCode = c, message = m,
                             ext = \<lparr>ext_IsAffectStability = b, ext_Extra = x\<rparr>\<rparr>;
                         (s3, w) = new_withStatus s2 a st (Some e)
                     in (s3, Some w)))))"

subsection \<open>\<open>WrapWithStatus\<close>\<close>

definition WrapWithStatus ::
  "('v \<Rightarrow> string) \<Rightarrow> state \<Rightarrow> string \<Rightarrow> err option \<Rightarrow> int32 \<Rightarrow> string \<Rightarrow> 'v data
     \<Rightarrow> state \<times> err option" where
  "WrapWithStatus fmt s st err code msg d =
     (case err of
        None \<Rightarrow> (s, None)
      | Some c \<Rightarrow>
          (let (s1, statusErr) = NewStatusError fmt s code msg d;
               (s2, se) =
                 (case As_withStatus statusErr of
                    Some ws \<Rightarrow> (s1, status ws)
                  | None \<Rightarrow>
                      (case As_statusError statusErr of
                         Some se \<Rightarrow> (s1, se)
                       | None \<Rightarrow>
                           (let def = GetCodeDefinition s1 code;
                                (s1a, extra) = convert_data fmt s1 d
                            in new_statusError s1a
                                 \<lparr>statusCode = code, message = StatusError_Msg s1a statusErr,
                                  ext = \<lparr>ext_IsAffectStability = IsAffectStability def,
                                         ext_Extra = extra\<rparr>\<rparr>)));
               (s3, w) = new_withStatus s2 se st (Some c)
           in (s3, Some w)))"

subsection \<open>Options\<close>

text \<open>\<open>strings.ReplaceAll(s, old, new)\<close> for a non-empty \<open>old\<close>: every non-overlapping
  occurrence of \<open>old\<close>, from the left, is replaced by \<open>new\<close>. \<open>Param\<close>, its only caller,
  passes \<open>"{" + k + "}"\<close>; the library's rule for the empty \<open>old\<close> (an insertion at every
  rune boundary) is not modelled, and the function returns \<open>s\<close> there.\<close>

function ReplaceAll :: "string \<Rightarrow> string \<Rightarrow> string \<Rightarrow> string" where
  "ReplaceAll s old new =
     (if s = [] \<or> old = [] then s
      else if take (length old) s = old
           then new @ ReplaceAll (drop (length old) s) old new
           else hd s # ReplaceAll (tl s) old new)"
  by pat_completeness auto
termination
  by (relation "measure (\<lambda>(s, old, new). length s)") (auto simp: neq_Nil_conv)

declare ReplaceAll.simps [simp del]

text \<open>An \<open>Option\<close> is a closure that \<open>Param\<close> or \<open>Extra\<close> returns; \<open>withStatus\<close> is not
  exported, so no other package can write one. A closure is modelled by the call that
  made it and \<open>apply_Option\<close> is its body, run on a wrapper whose \<open>status\<close> is \<open>a\<close> (the
  closures return at once on a nil wrapper or a nil \<open>status\<close>, which no caller passes).\<close>

datatype Option = Param string string | Extra string string

fun apply_Option :: "Option \<Rightarrow> state \<Rightarrow> addr \<Rightarrow> state" where
  "apply_Option (Param k v) s a =
     s\<lparr>statusErrors := (statusErrors s)
         [a := (statusErrors s ! a)
            \<lparr>message := ReplaceAll (message (statusErrors s ! a)) (''{'' @ k @ ''}'') v\<rparr>]\<rparr>"
| "apply_Option (Extra k v) s a =
     (case ext_Extra (ext (statusErrors s ! a)) of
        None \<Rightarrow>
          (let (s1, m) = make_map s;
               s2 = s1\<lparr>statusErrors := (statusErrors s1)
                      [a := (statusErrors s1 ! a)
                         \<lparr>ext := (ext (statusErrors s1 ! a))\<lparr>ext_Extra := Some m\<rparr>\<rparr>]\<rparr>
           in store_all s2 m [k \<mapsto> v])
      | Some m \<Rightarrow> store_all s m [k \<mapsto> v])"

text \<open>The loop \<open>for _, opt := range opts { opt(ws) }\<close>.\<close>

fun apply_Options :: "Option list \<Rightarrow> state \<Rightarrow> addr \<Rightarrow> state" where
  "apply_Options [] s a = s"
| "apply_Options (opt # opts) s a = apply_Options opts (apply_Option opt s a) a"

subsection \<open>\<open>NewWithStatus\<close> and \<open>WrapWithStatusOptions\<close>\<close>

definition NewWithStatus ::
  "state \<Rightarrow> string \<Rightarrow> int32 \<Rightarrow> string \<Rightarrow> Option list \<Rightarrow> state \<times> err" where
  "NewWithStatus s st code msg opts =
     (let msg1 = (if msg = [] then GetMessage s code [] else msg);
          def = GetCodeDefinition s code;
          (s1, m) = make_map s;
          (s2, se) = new_statusError s1
             \<lparr>statusCode = code, message = msg1,
              ext = \<lparr>ext_IsAffectStability = IsAffectStability def, ext_Extra = Some m\<rparr>\<rparr>;
          (s3, ws) = new_withStatus s2 se st None
      in (apply_Options opts s3 (status ws), ws))"

definition WrapWithStatusOptions ::
  "state \<Rightarrow> string \<Rightarrow> err option \<Rightarrow> int32 \<Rightarrow> string \<Rightarrow> Option list \<Rightarrow> state \<times> err option" where
  "WrapWithStatusOptions s st err code msg opts =
     (case err of
        None \<Rightarrow> (s, None)
      | Some c \<Rightarrow>
          (let msg1 = (if msg = [] then GetMessage s code [] else msg);
               def = GetCodeDefinition s code;
               (s1, m) = make_map s;
               (s2, se) = new_statusError s1
                  \<lparr>statusCode = code, message = msg1,
                   ext = \<lparr>ext_IsAffectStability = IsAffectStability def, ext_Extra = Some m\<rparr>\<rparr>;
               (s3, ws) = new_withStatus s2 se st (Some c)
           in (apply_Options opts s3 (status ws), Some ws)))"

section \<open>The RPC status codec (errors.go)\<close>

subsection \<open>The library types the codec uses\<close>

text \<open>
  The codec calls \<open>google.golang.org/grpc/status\<close>, \<open>grpc/codes\<close>, \<open>protobuf/anypb\<close> and
  \<open>protobuf/structpb\<close>. What the calls of the source do is modelled as follows.

  \<open>codes.Code\<close> is a \<open>uint32\<close>; these are the constants the source names.
\<close>

type_synonym codes_Code = "32 word"

definition codes_OK :: codes_Code where "codes_OK = 0"
definition codes_InvalidArgument :: codes_Code where "codes_InvalidArgument = 3"
definition codes_NotFound :: codes_Code where "codes_NotFound = 5"
definition codes_AlreadyExists :: codes_Code where "codes_AlreadyExists = 6"
definition codes_PermissionDenied :: codes_Code where "codes_PermissionDenied = 7"
definition codes_Internal :: codes_Code where "codes_Internal = 13"
definition codes_Unauthenticated :: codes_Code where "codes_Unauthenticated = 16"

text \<open>\<open>utf8.ValidString\<close>: the bytes are a sequence of well-formed UTF-8 encodings.
  \<open>structpb\<close> refuses any key or string value that is not.\<close>

definition between :: "char \<Rightarrow> nat \<Rightarrow> nat \<Rightarrow> bool" where
  "between c lo hi = (lo \<le> of_char c \<and> (of_char c :: nat) \<le> hi)"

fun ValidString :: "string \<Rightarrow> bool" where
  "ValidString [] = True"
| "ValidString (c # cs) =
     (if between c 0x00 0x7F then ValidString cs
      else if between c 0xC2 0xDF then
        (case cs of
           c1 # r \<Rightarrow> between c1 0x80 0xBF \<and> ValidString r
         | _ \<Rightarrow> False)
      else if between c 0xE0 0xEF then
        (case cs of
           c1 # c2 # r \<Rightarrow>
             between c1 (if between c 0xE0 0xE0 then 0xA0 else 0x80)
                        (if between c 0xED 0xED then 0x9F else 0xBF)
             \<and> between c2 0x80 0xBF \<and> ValidString r
         | _ \<Rightarrow> False)
      else if between c 0xF0 0xF4 then
        (case cs of
           c1 # c2 # c3 # r \<Rightarrow>
             between c1 (if between c 0xF0 0xF0 then 0x90 else 0x80)
                        (if between c 0xF4 0xF4 then 0x8F else 0xBF)
             \<and> between c2 0x80 0xBF \<and> between c3 0x80 0xBF \<and> ValidString r
         | _ \<Rightarrow> False)
      else False)"

text \<open>
  The values the source stores in the maps it gives to \<open>structpb.NewStruct\<close> (\<open>gval\<close>: an
  \<open>int32\<close> or a string), and the values \<open>Struct.AsMap\<close> gives back (\<open>any\<close>). A number of a
  \<open>Struct\<close> is a \<open>float64\<close>; a finite \<open>float64\<close> is modelled by the rational number it
  denotes. Every \<open>int32\<close> is a \<open>float64\<close> exactly, and the conversion \<open>int32(x)\<close> of a
  \<open>float64\<close> drops the fraction (for a value outside \<open>int32\<close> Go leaves the result to the
  implementation; the model wraps around).
\<close>

datatype gval = GInt32 int32 | GString string

datatype any = ANil | ABool bool | AFloat64 rat | AString string | ANested

definition float64_of_int32 :: "int32 \<Rightarrow> rat" where
  "float64_of_int32 c = of_int (sint c)"

definition int32_of_float64 :: "rat \<Rightarrow> int32" where
  "int32_of_float64 x = word_of_int (if 0 \<le> x then \<lfloor>x\<rfloor> else \<lceil>x\<rceil>)"

text \<open>\<open>structpb.NewValue\<close> and \<open>structpb.NewStruct\<close>; \<open>None\<close> is the error. The \<open>Struct\<close> is
  given by its \<open>AsMap\<close>.\<close>

fun NewValue :: "gval \<Rightarrow> any option" where
  "NewValue (GInt32 c) = Some (AFloat64 (float64_of_int32 c))"
| "NewValue (GString v) = (if ValidString v then Some (AString v) else None)"

definition NewStruct :: "(string \<rightharpoonup> gval) \<Rightarrow> (string \<rightharpoonup> any) option" where
  "NewStruct v =
     (if \<forall>k \<in> dom v. ValidString k \<and> NewValue (the (v k)) \<noteq> None
      then Some (\<lambda>k. Option.bind (v k) NewValue)
      else None)"

text \<open>
  An element of \<open>st.Details()\<close>: an \<open>*anypb.Any\<close> that \<open>UnmarshalTo\<close> decodes to a \<open>Struct\<close>
  (given by its \<open>AsMap\<close>), an \<open>*anypb.Any\<close> that it does not, or a value of another type.
  \<open>anypb.New\<close> of a \<open>Struct\<close> and \<open>WithDetails\<close> on a status whose code is not \<open>OK\<close> do not
  fail, and \<open>Details()\<close> gives back the \<open>*anypb.Any\<close> that \<open>WithDetails\<close> was given.
  A nil \<open>*status.Status\<close> reads as code \<open>OK\<close>, empty message, no details.
\<close>

datatype detail = AnyStruct "string \<rightharpoonup> any" | AnyOther | NotAny

record Status =
  st_Code :: codes_Code
  st_Message :: string
  st_Details :: "detail list"

definition status_New :: "codes_Code \<Rightarrow> string \<Rightarrow> Status" where
  "status_New c msg = \<lparr>st_Code = c, st_Message = msg, st_Details = []\<rparr>"

definition WithDetails :: "Status \<Rightarrow> detail \<Rightarrow> Status" where
  "WithDetails st d = st\<lparr>st_Details := st_Details st @ [d]\<rparr>"

subsection \<open>\<open>ToGRPCStatus\<close>\<close>

text \<open>\<open>grpcCode_of\<close> is the \<open>switch err.Code()\<close> of the function.\<close>

definition grpcCode_of :: "int32 \<Rightarrow> codes_Code" where
  "grpcCode_of c =
     (if c = CodeInvalidParam then codes_InvalidArgument
      else if c = CodeUnauthorized then codes_Unauthenticated
      else if c = CodeForbidden then codes_PermissionDenied
      else if c = CodeNotFound then codes_NotFound
      else if c = CodeAlreadyExists then codes_AlreadyExists
      else codes_Internal)"

definition ToGRPCStatus :: "state \<Rightarrow> err option \<Rightarrow> state \<times> Status" where
  "ToGRPCStatus s err =
     (case err of
        None \<Rightarrow> (s, status_New codes_Internal ''unknown error'')
      | Some e \<Rightarrow>
          (let grpcCode = grpcCode_of (StatusError_Code s e);
               st = status_New grpcCode (StatusError_Msg s e);
               (s1, extra) = StatusError_Extra s e;
               st1 = (if contents s1 extra \<noteq> Map.empty
                      then (case NewStruct (\<lambda>k. map_option GString (contents s1 extra k)) of
                              Some structValue \<Rightarrow> WithDetails st (AnyStruct structValue)
                            | None \<Rightarrow> st)
                      else st);
               errorInfo = [''business_code'' \<mapsto> GInt32 (StatusError_Code s1 e),
                            ''business_msg'' \<mapsto> GString (StatusError_Msg s1 e)];
               st2 = (case NewStruct errorInfo of
                        Some structValue \<Rightarrow> WithDetails st1 (AnyStruct structValue)
                      | None \<Rightarrow> st1)
           in (s1, st2)))"

subsection \<open>\<open>FromGRPCStatus\<close>\<close>

text \<open>The body of the loop over the details. The loop variables are the code, the message
  and \<open>extraData\<close>, a map reference that is nil until the first metadata attachment.\<close>

definition scan_detail ::
  "(any \<Rightarrow> string) \<Rightarrow> detail \<Rightarrow> state \<times> int32 \<times> string \<times> addr option
     \<Rightarrow> state \<times> int32 \<times> string \<times> addr option" where
  "scan_detail fmt d acc =
     (case acc of (s, code, msg, extraData) \<Rightarrow>
        (case d of
           AnyStruct structMap \<Rightarrow>
             (case structMap ''business_code'' of
                Some (AFloat64 bizCode) \<Rightarrow>
                  (s, int32_of_float64 bizCode,
                   (case structMap ''business_msg'' of
                      Some (AString bizMsg) \<Rightarrow> bizMsg
                    | _ \<Rightarrow> msg),
                   extraData)
              | _ \<Rightarrow>
                  (let (s1, m) = (case extraData of
                                    None \<Rightarrow> make_map s
                                  | Some m \<Rightarrow> (s, m))
                   in (store_all s1 m (\<lambda>k. map_option fmt (structMap k)), code, msg, Some m)))
         | _ \<Rightarrow> acc))"

fun scan_details ::
  "(any \<Rightarrow> string) \<Rightarrow> detail list \<Rightarrow> state \<times> int32 \<times> string \<times> addr option
     \<Rightarrow> state \<times> int32 \<times> string \<times> addr option" where
  "scan_details fmt [] acc = acc"
| "scan_details fmt (d # ds) acc = scan_details fmt ds (scan_detail fmt d acc)"

text \<open>\<open>code_of_grpc\<close> is the \<open>switch st.Code()\<close> of the function, which it runs when
  \<open>code == CodeInternalError\<close> after the loop.\<close>

definition code_of_grpc :: "codes_Code \<Rightarrow> int32" where
  "code_of_grpc c =
     (if c = codes_InvalidArgument then CodeInvalidParam
      else if c = codes_Unauthenticated then CodeUnauthorized
      else if c = codes_PermissionDenied then CodeForbidden
      else if c = codes_NotFound then CodeNotFound
      else if c = codes_AlreadyExists then CodeAlreadyExists
      else CodeInternalError)"

definition FromGRPCStatus :: "(any \<Rightarrow> string) \<Rightarrow> state \<Rightarrow> Status \<Rightarrow> state \<times> err" where
  "FromGRPCStatus fmt s st =
     (case scan_details fmt (st_Details st) (s, CodeInternalError, st_Message st, None) of
        (s1, code, msg, extraData) \<Rightarrow>
          NewStatusError fmt s1
            (if code = CodeInternalError then code_of_grpc (st_Code st) else code)
            msg (DataStringMap extraData))"

section \<open>Notions used to state the properties\<close>

text \<open>The values that may be passed where the source expects a \<open>StatusError\<close>.\<close>

fun implements_StatusError :: "err \<Rightarrow> bool" where
  "implements_StatusError (OtherError i u) = False"
| "implements_StatusError e = True"

text \<open>The five business codes that \<open>ToGRPCStatus\<close> maps to a transport code of their own,
  and the five transport codes that \<open>FromGRPCStatus\<close> maps back.\<close>

definition mapped_codes :: "int32 set" where
  "mapped_codes =
     {CodeInvalidParam, CodeUnauthorized, CodeForbidden, CodeNotFound, CodeAlreadyExists}"

definition mapped_grpc_codes :: "codes_Code set" where
  "mapped_grpc_codes =
     {codes_InvalidArgument, codes_Unauthenticated, codes_PermissionDenied, codes_NotFound,
      codes_AlreadyExists}"

text \<open>A detail carries a business code when it is a \<open>Struct\<close> attachment whose field
  \<open>business_code\<close> is a number.\<close>

definition carries_code :: "detail \<Rightarrow> bool" where
  "carries_code d =
     (case d of
        AnyStruct structMap \<Rightarrow>
          (case structMap ''business_code'' of Some (AFloat64 x) \<Rightarrow> True | _ \<Rightarrow> False)
      | _ \<Rightarrow> False)"

text \<open>The attachment that \<open>ToGRPCStatus\<close> makes of \<open>errorInfo\<close>, and the status after
  the metadata attachment (the first \<open>if\<close> of \<open>ToGRPCStatus\<close>).\<close>

definition business_detail :: "int32 \<Rightarrow> string \<Rightarrow> detail" where
  "business_detail c m =
     AnyStruct [''business_code'' \<mapsto> AFloat64 (float64_of_int32 c),
                ''business_msg'' \<mapsto> AString m]"

definition attach_extra :: "state \<Rightarrow> addr option \<Rightarrow> Status \<Rightarrow> Status" where
  "attach_extra s x st0 =
     (if contents s x \<noteq> Map.empty
      then (case NewStruct (\<lambda>k. map_option GString (contents s x k)) of
              Some structValue \<Rightarrow> WithDetails st0 (AnyStruct structValue)
            | None \<Rightarrow> st0)
      else st0)"

subsection \<open>Concrete inputs\<close>

text \<open>Two renderings for \<open>fmt.Sprintf("%v", _)\<close>: strings render as themselves; the second
  is used where no value is ever rendered.\<close>

definition show_string :: "string \<Rightarrow> string" where
  "show_string v = v"

definition no_format :: "any \<Rightarrow> string" where
  "no_format v = []"

text \<open>\<open>NewStatusError(CodeNotFound, "gone", nil)\<close>, encoded and decoded.\<close>

definition ex1_new :: "state \<times> err" where
  "ex1_new = NewStatusError show_string initial_state CodeNotFound ''gone'' DataNil"

definition ex1_enc :: "state \<times> Status" where
  "ex1_enc = ToGRPCStatus (fst ex1_new) (Some (snd ex1_new))"

definition ex1_dec :: "state \<times> err" where
  "ex1_dec = FromGRPCStatus no_format (fst ex1_enc) (snd ex1_enc)"

text \<open>\<open>NewStatusError(CodeUserNotFound, m, nil)\<close>, where the message \<open>m\<close> is the single
  byte \<open>0xFF\<close> (not UTF-8), encoded and decoded.\<close>

definition ex2_new :: "state \<times> err" where
  "ex2_new = NewStatusError show_string initial_state CodeUserNotFound [CHR 0xFF] DataNil"

definition ex2_enc :: "state \<times> Status" where
  "ex2_enc = ToGRPCStatus (fst ex2_new) (Some (snd ex2_new))"

definition ex2_dec :: "state \<times> err" where
  "ex2_dec = FromGRPCStatus no_format (fst ex2_enc) (snd ex2_enc)"

text \<open>\<open>NewStatusError(CodeUserNotFound, "no such user", nil)\<close>, encoded and decoded.\<close>

definition ex2v_new :: "state \<times> err" where
  "ex2v_new = NewStatusError show_string initial_state CodeUserNotFound ''no such user'' DataNil"

definition ex2v_enc :: "state \<times> Status" where
  "ex2v_enc = ToGRPCStatus (fst ex2v_new) (Some (snd ex2v_new))"

definition ex2v_dec :: "state \<times> err" where
  "ex2v_dec = FromGRPCStatus no_format (fst ex2v_enc) (snd ex2v_enc)"

text \<open>A status with the transport code \<open>NotFound\<close> and one attachment
  \<open>{business_code: 1006, business_msg: "boom"}\<close>, decoded.\<close>

definition ex3_status :: Status where
  "ex3_status =
     \<lparr>st_Code = codes_NotFound, st_Message = ''not found'',
      st_Details = [AnyStruct [''business_code'' \<mapsto> AFloat64 1006,
                               ''business_msg'' \<mapsto> AString ''boom'']]\<rparr>"

definition ex3_dec :: "state \<times> err" where
  "ex3_dec = FromGRPCStatus no_format initial_state ex3_status"

text \<open>\<open>WithStack(NewStatusError(CodeNotFound, "gone", map[string]string(nil)))\<close>: the data
  is a nil map of type \<open>map[string]string\<close>. \<open>ex5_w\<close> is the wrapper that \<open>WithStack\<close>
  returns, and \<open>ex5_extra\<close> its \<open>Extra()\<close>.\<close>

definition ex5_new :: "state \<times> err" where
  "ex5_new = NewStatusError show_string initial_state CodeNotFound ''gone'' (DataStringMap None)"

definition ex5_wrap :: "state \<times> err option" where
  "ex5_wrap = WithStack (fst ex5_new) ''main.main'' (Some (snd ex5_new))"

definition ex5_w :: err where
  "ex5_w = PWithStatus 0 0 ''main.main'' None"

definition ex5_extra :: "state \<times> addr option" where
  "ex5_extra = StatusError_Extra (fst ex5_wrap) ex5_w"

text \<open>\<open>NewWithStatus\<close> with the messages and options of the examples of \<open>Param\<close> and
  \<open>Extra\<close>.\<close>

definition ex8_user :: "state \<times> err" where
  "ex8_user = NewWithStatus initial_state ''main.main'' CodeNotFound ''user {name} not found'' []"

definition ex8_twice :: "state \<times> err" where
  "ex8_twice = NewWithStatus initial_state ''main.main'' CodeNotFound ''{name} and {name}'' []"

definition ex8_extras :: "state \<times> err" where
  "ex8_extras = NewWithStatus initial_state ''main.main'' CodeNotFound ''gone''
     [Extra ''key1'' ''value1'', Extra ''key2'' ''value2'']"

text \<open>\<open>NewStatusError(CodeNotFound, "", nil)\<close> and its \<open>Extra()\<close>.\<close>

definition ex9_new :: "state \<times> err" where
  "ex9_new = NewStatusError show_string initial_state CodeNotFound [] DataNil"

definition ex9_extra :: "state \<times> addr option" where
  "ex9_extra = StatusError_Extra (fst ex9_new) (snd ex9_new)"

text \<open>An error of another package that implements \<open>StatusError\<close>, with code 4242 and no
  \<open>Unwrap\<close>.\<close>

definition ex10_err :: err where
  "ex10_err = OtherStatus 7
     \<lparr>v_Code = 4242, v_Msg = ''teapot'', v_IsAffectStability = False, v_Extra = None\<rparr> None"

section \<open>Basic facts\<close>

lemmas Code_defs =
  CodeSuccess_def CodeInvalidParam_def CodeUnauthorized_def CodeForbidden_def
  CodeNotFound_def CodeAlreadyExists_def CodeInternalError_def CodeRequestTimeout_def
  CodeUserNotFound_def CodeUserAlreadyExist_def CodeRateLimitExceeded_def
  CodeTokenExpired_def

lemmas codes_defs =
  codes_OK_def codes_InvalidArgument_def codes_NotFound_def codes_AlreadyExists_def
  codes_PermissionDenied_def codes_Internal_def codes_Unauthenticated_def

lemma initial_registry_unknown: "CodeDefinitions initial_state 99999 = None"
  by (simp add: initial_state_def CodeDefinitions_literal_def Code_defs)

lemma As_withStatus_is_wrapper:
  "As_withStatus e = Some w \<Longrightarrow> \<exists>i a st c. w = PWithStatus i a st c"
  by (induction e rule: As_withStatus.induct) (auto split: option.splits)

lemma As_withStatus_fix:
  "As_withStatus e = Some w \<Longrightarrow> As_withStatus w = Some w"
  by (induction e rule: As_withStatus.induct) (auto split: option.splits)

section \<open>The code registry\<close>

text \<open>
  C4 (as amended). For every code that is not a key of the registry, \<open>GetCodeDefinition\<close>
  returns the default definition: its message is the Chinese text for "unknown error"
  (the bytes \<open>msg_unknown\<close>), and it affects stability.
\<close>

theorem GetCodeDefinition_unregistered:
  "CodeDefinitions s c = None \<Longrightarrow>
   GetCodeDefinition s c = \<lparr>Message = msg_unknown, IsAffectStability = True\<rparr>"
  by (simp add: GetCodeDefinition_def)

theorem GetCodeDefinition_unregistered_witness:
  "CodeDefinitions initial_state 99999 = None \<and>
   GetCodeDefinition initial_state 99999 = \<lparr>Message = msg_unknown, IsAffectStability = True\<rparr>"
  using GetCodeDefinition_unregistered [of initial_state 99999] initial_registry_unknown
  by simp

text \<open>
  C4 as the specification words it: the message of the default definition is not the
  English string \<open>unknown error\<close>. (The source has that English string too, but as the
  message of the status that \<open>ToGRPCStatus\<close> makes for a nil error.)
\<close>

theorem GetCodeDefinition_unregistered_counterexample:
  "CodeDefinitions initial_state 99999 = None \<and>
   GetCodeDefinition initial_state 99999 \<noteq> \<lparr>Message = ''unknown error'', IsAffectStability = True\<rparr>"
  by (simp add: initial_registry_unknown GetCodeDefinition_def msg_unknown_def)

section \<open>Wrapping\<close>

text \<open>
  C6. \<open>WithStack\<close> is idempotent: for a non-nil \<open>e\<close>, \<open>WithStack(e)\<close> is a wrapper pointer,
  and \<open>WithStack\<close> of it returns that same pointer (the same identity and fields) and
  leaves the state as it is, so no second wrapper is allocated.
\<close>

theorem WithStack_idempotent:
  "(\<exists>i a k c. snd (WithStack s st (Some e)) = Some (PWithStatus i a k c)) \<and>
   WithStack (fst (WithStack s st (Some e))) st' (snd (WithStack s st (Some e)))
     = (fst (WithStack s st (Some e)), snd (WithStack s st (Some e)))"
  by (auto simp: WithStack_def new_withStatus_def Let_def split: option.splits prod.splits
        dest: As_withStatus_fix As_withStatus_is_wrapper)

text \<open>
  C7. Nil in, nil out: \<open>WithStack(nil)\<close> and \<open>WrapWithStatus(nil, code, message, data)\<close>
  return nil, for every code, message and data, and leave the state as it is.
\<close>

theorem wrap_nil:
  "WithStack s st None = (s, None) \<and> WrapWithStatus fmt s st None code msg d = (s, None)"
  by (simp add: WithStack_def WrapWithStatus_def)

section \<open>The codec\<close>

subsection \<open>What the operations leave unchanged\<close>

lemma GetCodeDefinition_cong:
  "CodeDefinitions s1 = CodeDefinitions s \<Longrightarrow> GetCodeDefinition s1 c = GetCodeDefinition s c"
  by (simp add: GetCodeDefinition_def)

lemma StatusError_Extra_frame:
  assumes "implements_StatusError e" "StatusError_Extra s e = (s1, r)"
  shows "statusErrors s1 = statusErrors s \<and> CodeDefinitions s1 = CodeDefinitions s
         \<and> withStatuses s1 = withStatuses s"
  using assms
  by (cases e)
     (auto simp: statusError_Extra_def withStatus_Extra_def make_map_def store_all_def Let_def
           split: option.splits if_splits)

lemma StatusError_Code_frame:
  "implements_StatusError e \<Longrightarrow> statusErrors s1 = statusErrors s \<Longrightarrow>
   StatusError_Code s1 e = StatusError_Code s e"
  by (cases e) (simp_all add: statusError_Code_def withStatus_Code_def)

lemma StatusError_Msg_frame:
  "implements_StatusError e \<Longrightarrow> statusErrors s1 = statusErrors s \<Longrightarrow>
   StatusError_Msg s1 e = StatusError_Msg s e"
  by (cases e) (simp_all add: statusError_Msg_def withStatus_Msg_def)

lemma convert_data_frame:
  "convert_data fmt s d = (s1, r) \<Longrightarrow>
   statusErrors s1 = statusErrors s \<and> CodeDefinitions s1 = CodeDefinitions s
   \<and> withStatuses s1 = withStatuses s"
  by (auto simp: convert_data_def make_map_def store_all_def Let_def split: data.splits)

lemma NewStatusError_result:
  assumes "NewStatusError fmt s c m d = (s1, e)"
  shows "e = PStatusError (length (statusErrors s))"
    and "StatusError_Code s1 e = c"
    and "StatusError_Msg s1 e = (if m = [] then Message (GetCodeDefinition s c) else m)"
    and "StatusError_IsAffectStability s1 e = IsAffectStability (GetCodeDefinition s c)"
    and "CodeDefinitions s1 = CodeDefinitions s"
  using assms
  by (auto simp: NewStatusError_def new_statusError_def Let_def GetMessage_def
        statusError_Code_def statusError_Msg_def statusError_IsAffectStability_def
        split: prod.splits dest!: convert_data_frame)

lemma NewStatusError_proj:
  "snd (NewStatusError fmt s c m d) = PStatusError (length (statusErrors s))"
  "StatusError_Code (fst (NewStatusError fmt s c m d)) (snd (NewStatusError fmt s c m d)) = c"
  "StatusError_Msg (fst (NewStatusError fmt s c m d)) (snd (NewStatusError fmt s c m d))
     = (if m = [] then Message (GetCodeDefinition s c) else m)"
  by (rule NewStatusError_result [OF prod.collapse [symmetric]])+

subsection \<open>Numbers and tables\<close>

lemma int32_float64_int32: "int32_of_float64 (float64_of_int32 c) = c"
proof -
  have "\<lfloor>(of_int (sint c) :: rat)\<rfloor> = sint c" "\<lceil>(of_int (sint c) :: rat)\<rceil> = sint c"
    by (simp_all del: of_int_sint)
  then show ?thesis
    unfolding int32_of_float64_def float64_of_int32_def by simp
qed

lemma int32_of_float64_numeral: "int32_of_float64 1006 = CodeInternalError"
  by (simp add: int32_of_float64_def Code_defs)

lemma InternalError_not_mapped: "CodeInternalError \<notin> mapped_codes"
  by (simp add: mapped_codes_def Code_defs)

lemma grpc_roundtrip_code:
  "code_of_grpc (grpcCode_of c) = (if c \<in> mapped_codes then c else CodeInternalError)"
  by (simp add: code_of_grpc_def grpcCode_of_def mapped_codes_def Code_defs codes_defs)

lemma code_of_grpc_unmapped:
  "c \<notin> mapped_grpc_codes \<Longrightarrow> code_of_grpc c = CodeInternalError"
  by (simp add: code_of_grpc_def mapped_grpc_codes_def)

subsection \<open>The envelope that \<open>ToGRPCStatus\<close> builds\<close>

lemma NewStruct_errorInfo:
  "NewStruct [''business_code'' \<mapsto> GInt32 c, ''business_msg'' \<mapsto> GString m] =
     (if ValidString m
      then Some [''business_code'' \<mapsto> AFloat64 (float64_of_int32 c),
                 ''business_msg'' \<mapsto> AString m]
      else None)"
  by (auto simp: NewStruct_def between_def fun_eq_iff)

lemma NewStruct_strings_no_code:
  "NewStruct (\<lambda>k. map_option GString (m k)) = Some structValue \<Longrightarrow>
   \<not> carries_code (AnyStruct structValue)"
  by (auto simp: NewStruct_def carries_code_def split: if_splits option.splits any.splits
           elim!: bind_eq_Some_conv[THEN iffD1, elim_format])

lemma ToGRPCStatus_unfold:
  assumes ex: "StatusError_Extra s e = (s', x)"
    and c: "StatusError_Code s' e = StatusError_Code s e"
    and m: "StatusError_Msg s' e = StatusError_Msg s e"
    and "ToGRPCStatus s (Some e) = (s1, st)"
  shows "s1 = s' \<and>
    st = (if ValidString (StatusError_Msg s e)
          then WithDetails
                 (attach_extra s' x
                    (status_New (grpcCode_of (StatusError_Code s e)) (StatusError_Msg s e)))
                 (business_detail (StatusError_Code s e) (StatusError_Msg s e))
          else attach_extra s' x
                 (status_New (grpcCode_of (StatusError_Code s e)) (StatusError_Msg s e)))"
  using assms(4) c m unfolding ToGRPCStatus_def attach_extra_def [symmetric]
  by (auto simp add: ex NewStruct_errorInfo business_detail_def Let_def)

lemma attach_extra_props:
  "st_Code (attach_extra s x st0) = st_Code st0"
  "st_Message (attach_extra s x st0) = st_Message st0"
  "\<exists>ms. st_Details (attach_extra s x st0) = st_Details st0 @ ms \<and>
        (\<forall>d \<in> set ms. \<not> carries_code d)"
  by (auto simp: attach_extra_def WithDetails_def split: option.splits
        dest: NewStruct_strings_no_code)

lemma ToGRPCStatus_shape:
  assumes "implements_StatusError e" "ToGRPCStatus s (Some e) = (s1, st)"
  shows "st_Code st = grpcCode_of (StatusError_Code s e)
       \<and> st_Message st = StatusError_Msg s e
       \<and> statusErrors s1 = statusErrors s \<and> CodeDefinitions s1 = CodeDefinitions s
       \<and> (\<exists>ms. st_Details st = ms @
             (if ValidString (StatusError_Msg s e)
              then [business_detail (StatusError_Code s e) (StatusError_Msg s e)]
              else [])
            \<and> (\<forall>d \<in> set ms. \<not> carries_code d))"
proof -
  obtain s' x where ex: "StatusError_Extra s e = (s', x)" by (cases "StatusError_Extra s e")
  from StatusError_Extra_frame[OF assms(1) ex]
  have fr: "statusErrors s' = statusErrors s" "CodeDefinitions s' = CodeDefinitions s" by simp_all
  have c: "StatusError_Code s' e = StatusError_Code s e"
    and m: "StatusError_Msg s' e = StatusError_Msg s e"
    by (rule StatusError_Code_frame [OF assms(1) fr(1)],
        rule StatusError_Msg_frame [OF assms(1) fr(1)])
  define st0 where "st0 = status_New (grpcCode_of (StatusError_Code s e)) (StatusError_Msg s e)"
  note r = ToGRPCStatus_unfold[OF ex c m assms(2), folded st0_def]
  obtain ms where ms: "st_Details (attach_extra s' x st0) = st_Details st0 @ ms"
     "\<forall>d \<in> set ms. \<not> carries_code d"
    using attach_extra_props(3) by blast
  have d0: "st_Details st0 = []" "st_Code st0 = grpcCode_of (StatusError_Code s e)"
     "st_Message st0 = StatusError_Msg s e" by (simp_all add: st0_def status_New_def)
  show ?thesis
  proof (cases "ValidString (StatusError_Msg s e)")
    case True
    with r have "st = WithDetails (attach_extra s' x st0)
                       (business_detail (StatusError_Code s e) (StatusError_Msg s e))"
      and "s1 = s'"
      by simp_all
    then show ?thesis using ms d0 fr True by (simp add: WithDetails_def attach_extra_props)
  next
    case False
    with r have "st = attach_extra s' x st0" "s1 = s'" by simp_all
    then show ?thesis using ms d0 fr False by (simp add: attach_extra_props)
  qed
qed

subsection \<open>The scan of \<open>FromGRPCStatus\<close>\<close>

lemma scan_detail_metadata:
  assumes "\<not> carries_code d" "scan_detail fmt d (s, code, msg, x) = (s1, code1, msg1, x1)"
  shows "code1 = code \<and> msg1 = msg \<and> statusErrors s1 = statusErrors s
         \<and> CodeDefinitions s1 = CodeDefinitions s"
  using assms
  by (auto simp: scan_detail_def carries_code_def make_map_def store_all_def Let_def
        split: detail.splits option.splits any.splits prod.splits)

lemma scan_detail_code:
  assumes "structMap ''business_code'' = Some (AFloat64 x)"
  shows "scan_detail fmt (AnyStruct structMap) (s, code, msg, r) =
         (s, int32_of_float64 x,
          (case structMap ''business_msg'' of Some (AString bizMsg) \<Rightarrow> bizMsg | _ \<Rightarrow> msg), r)"
  using assms by (simp add: scan_detail_def)

lemma scan_details_append:
  "scan_details fmt (xs @ ys) acc = scan_details fmt ys (scan_details fmt xs acc)"
  by (induction xs arbitrary: acc) simp_all

lemma scan_details_metadata:
  assumes "\<forall>d \<in> set ms. \<not> carries_code d"
    "scan_details fmt ms (s, code, msg, x) = (s1, code1, msg1, x1)"
  shows "code1 = code \<and> msg1 = msg \<and> statusErrors s1 = statusErrors s
         \<and> CodeDefinitions s1 = CodeDefinitions s"
  using assms
proof (induction ms arbitrary: s x)
  case Nil
  then show ?case by simp
next
  case (Cons d ms)
  obtain sa ca ma xa where step: "scan_detail fmt d (s, code, msg, x) = (sa, ca, ma, xa)"
    by (cases "scan_detail fmt d (s, code, msg, x)")
  from Cons.prems(1) have nd: "\<not> carries_code d" by simp
  from scan_detail_metadata[OF nd step]
  have a: "ca = code" "ma = msg" "statusErrors sa = statusErrors s"
    "CodeDefinitions sa = CodeDefinitions s" by simp_all
  from Cons.prems(2) step a have "scan_details fmt ms (sa, code, msg, xa) = (s1, code1, msg1, x1)"
    by simp
  from Cons.IH[OF _ this] Cons.prems(1) a show ?case by simp
qed

lemma scan_business_detail:
  "scan_detail fmt (business_detail c m) (s, code, msg, x) = (s, c, m, x)"
  by (simp add: business_detail_def scan_detail_def int32_float64_int32)

lemma FromGRPCStatus_result:
  assumes "scan_details fmt (st_Details st) (s, CodeInternalError, st_Message st, None)
             = (s1, code, msg, x)"
    and "FromGRPCStatus fmt s st = (s2, e)"
  shows "StatusError_Code s2 e = (if code = CodeInternalError then code_of_grpc (st_Code st) else code)
       \<and> StatusError_Msg s2 e =
           (if msg = []
            then Message (GetCodeDefinition s1
                   (if code = CodeInternalError then code_of_grpc (st_Code st) else code))
            else msg)"
proof -
  from assms have "NewStatusError fmt s1
            (if code = CodeInternalError then code_of_grpc (st_Code st) else code)
            msg (DataStringMap x) = (s2, e)"
    by (simp add: FromGRPCStatus_def)
  from NewStatusError_result(2,3)[OF this] show ?thesis by simp
qed

lemma FromGRPCStatus_proj:
  assumes "scan_details fmt (st_Details st) (s, CodeInternalError, st_Message st, None)
             = (s1, code, msg, x)"
  shows "StatusError_Code (fst (FromGRPCStatus fmt s st)) (snd (FromGRPCStatus fmt s st))
           = (if code = CodeInternalError then code_of_grpc (st_Code st) else code)"
    and "StatusError_Msg (fst (FromGRPCStatus fmt s st)) (snd (FromGRPCStatus fmt s st)) =
           (if msg = []
            then Message (GetCodeDefinition s1
                   (if code = CodeInternalError then code_of_grpc (st_Code st) else code))
            else msg)"
  using FromGRPCStatus_result [OF assms prod.collapse [symmetric]] by blast+

text \<open>Decoding what \<open>ToGRPCStatus\<close> encoded, for any \<open>StatusError\<close> value: the code comes
  back when the business attachment was made (the message is valid UTF-8) or the code is
  one of the five with a transport code of its own, and is \<open>CodeInternalError\<close> otherwise;
  an empty message comes back as the registry's default.\<close>

lemma decode_encode:
  assumes "implements_StatusError e"
    and "ToGRPCStatus s (Some e) = (s1, st)"
    and "FromGRPCStatus fmt s1 st = (s2, e')"
  shows "StatusError_Code s2 e' =
           (if ValidString (StatusError_Msg s e) \<or> StatusError_Code s e \<in> mapped_codes
            then StatusError_Code s e else CodeInternalError)"
    and "StatusError_Msg s2 e' =
           (if StatusError_Msg s e = []
            then Message (GetCodeDefinition s (StatusError_Code s2 e'))
            else StatusError_Msg s e)"
proof -
  let ?c = "StatusError_Code s e" and ?m = "StatusError_Msg s e"
  from ToGRPCStatus_shape[OF assms(1,2)] obtain ms where
    sh: "st_Code st = grpcCode_of ?c" "st_Message st = ?m" "CodeDefinitions s1 = CodeDefinitions s"
      "st_Details st = ms @ (if ValidString ?m then [business_detail ?c ?m] else [])"
      "\<forall>d \<in> set ms. \<not> carries_code d"
    by blast
  obtain sa ca ma xa where
    pre: "scan_details fmt ms (s1, CodeInternalError, ?m, None) = (sa, ca, ma, xa)"
    by (cases "scan_details fmt ms (s1, CodeInternalError, ?m, None)")
  from scan_details_metadata[OF sh(5) pre]
  have a: "ca = CodeInternalError" "ma = ?m" "CodeDefinitions sa = CodeDefinitions s1" by simp_all
  have sc: "scan_details fmt (st_Details st) (s1, CodeInternalError, st_Message st, None)
          = (sa, if ValidString ?m then ?c else CodeInternalError, ?m, xa)"
    by (simp add: sh(2,4) scan_details_append pre a scan_business_detail)
  note r = FromGRPCStatus_result[OF sc assms(3)]
  have g: "GetCodeDefinition sa = GetCodeDefinition s"
    using a(3) sh(3) by (simp add: fun_eq_iff GetCodeDefinition_def)
  show "StatusError_Code s2 e' =
           (if ValidString ?m \<or> ?c \<in> mapped_codes then ?c else CodeInternalError)"
    using r by (simp add: sh(1) grpc_roundtrip_code InternalError_not_mapped)
  show "StatusError_Msg s2 e' =
           (if ?m = [] then Message (GetCodeDefinition s (StatusError_Code s2 e')) else ?m)"
    using r by (simp add: g)
qed

subsection \<open>Round trips\<close>

text \<open>
  C1. For a Status Error made by \<open>NewStatusError\<close> with one of the codes invalid-param,
  unauthorized, forbidden, not-found, already-exists (and any message and data), decoding
  the encoding gives back the code and the message: \<open>FromGRPCStatus(ToGRPCStatus(e))\<close> has
  the \<open>Code()\<close> and the \<open>Msg()\<close> of \<open>e\<close>.
\<close>

theorem roundtrip_mapped_codes:
  assumes "c \<in> mapped_codes"
  shows "(case NewStatusError fmt s c m d of (s1, e) \<Rightarrow>
          case ToGRPCStatus s1 (Some e) of (s2, st) \<Rightarrow>
          case FromGRPCStatus fmt' s2 st of (s3, e') \<Rightarrow>
            StatusError_Code s1 e = c \<and>
            StatusError_Code s3 e' = StatusError_Code s1 e \<and>
            StatusError_Msg s3 e' = StatusError_Msg s1 e)"
proof -
  obtain s1 e where n: "NewStatusError fmt s c m d = (s1, e)"
    by (cases "NewStatusError fmt s c m d")
  obtain s2 st where t: "ToGRPCStatus s1 (Some e) = (s2, st)"
    by (cases "ToGRPCStatus s1 (Some e)")
  obtain s3 e' where f: "FromGRPCStatus fmt' s2 st = (s3, e')"
    by (cases "FromGRPCStatus fmt' s2 st")
  note e = NewStatusError_result(1,2,3,5) [OF n]
  have i: "implements_StatusError e" by (simp add: e(1))
  have g: "GetCodeDefinition s1 = GetCodeDefinition s"
    using e(4) by (simp add: fun_eq_iff GetCodeDefinition_def)
  from decode_encode(1)[OF i t f] assms e(2)
  have c': "StatusError_Code s3 e' = c" by simp
  from decode_encode(2)[OF i t f]
  have "StatusError_Msg s3 e' = StatusError_Msg s1 e"
    by (simp add: c' g e(3))
  with c' e(2) show ?thesis by (simp add: n t f)
qed

theorem roundtrip_mapped_codes_witness:
  "CodeNotFound \<in> mapped_codes \<and>
   StatusError_Code (fst ex1_new) (snd ex1_new) = CodeNotFound \<and>
   StatusError_Code (fst ex1_dec) (snd ex1_dec) = StatusError_Code (fst ex1_new) (snd ex1_new) \<and>
   StatusError_Msg (fst ex1_dec) (snd ex1_dec) = StatusError_Msg (fst ex1_new) (snd ex1_new)"
  using roundtrip_mapped_codes [where c = CodeNotFound and fmt = show_string and s = initial_state
      and m = "''gone''" and d = DataNil and fmt' = no_format]
  by (simp add: mapped_codes_def ex1_new_def ex1_enc_def ex1_dec_def case_prod_beta)

text \<open>
  C2 (as amended). For a \<open>StatusError\<close> \<open>e\<close> whose code is not one of the five mapped codes,
  \<open>ToGRPCStatus(e)\<close> has the transport code \<open>Internal\<close>. When the message of \<open>e\<close> is valid
  UTF-8, the last attachment is \<open>{business_code, business_msg}\<close> of \<open>e\<close> and
  \<open>FromGRPCStatus(ToGRPCStatus(e))\<close> has the code of \<open>e\<close>. When it is not, \<open>structpb\<close>
  refuses the message, the source skips the attachment, no attachment carries a code and
  the decoded code is \<open>CodeInternalError\<close>.
\<close>

theorem decode_encode_other_codes:
  assumes "implements_StatusError e" and "StatusError_Code s e \<notin> mapped_codes"
  shows "(case ToGRPCStatus s (Some e) of (s1, st) \<Rightarrow>
          case FromGRPCStatus fmt s1 st of (s2, e') \<Rightarrow>
            st_Code st = codes_Internal \<and>
            (if ValidString (StatusError_Msg s e)
             then st_Details st \<noteq> [] \<and>
                  last (st_Details st) =
                    AnyStruct [''business_code'' \<mapsto> AFloat64 (float64_of_int32 (StatusError_Code s e)),
                               ''business_msg'' \<mapsto> AString (StatusError_Msg s e)] \<and>
                  StatusError_Code s2 e' = StatusError_Code s e
             else (\<forall>d \<in> set (st_Details st). \<not> carries_code d) \<and>
                  StatusError_Code s2 e' = CodeInternalError))"
proof -
  obtain s1 st where t: "ToGRPCStatus s (Some e) = (s1, st)"
    by (cases "ToGRPCStatus s (Some e)")
  obtain s2 e' where f: "FromGRPCStatus fmt s1 st = (s2, e')"
    by (cases "FromGRPCStatus fmt s1 st")
  from ToGRPCStatus_shape[OF assms(1) t] obtain ms where
    sh: "st_Code st = grpcCode_of (StatusError_Code s e)" 
      "st_Details st = ms @ (if ValidString (StatusError_Msg s e) then [business_detail (StatusError_Code s e) (StatusError_Msg s e)] else [])"
      "\<forall>d \<in> set ms. \<not> carries_code d"
    by blast
  have k: "st_Code st = codes_Internal"
    using assms(2) by (simp add: sh(1) grpcCode_of_def mapped_codes_def)
  from decode_encode(1)[OF assms(1) t f] assms(2)
  have c': "StatusError_Code s2 e' =
     (if ValidString (StatusError_Msg s e) then StatusError_Code s e else CodeInternalError)"
    by simp
  show ?thesis
    using k c' sh(2,3) by (simp add: t f business_detail_def)
qed

lemma ex2v_facts:
  "snd ex2v_new = PStatusError 0"
  "StatusError_Code (fst ex2v_new) (snd ex2v_new) = CodeUserNotFound"
  "StatusError_Msg (fst ex2v_new) (snd ex2v_new) = ''no such user''"
  unfolding ex2v_new_def
  by (simp add: NewStatusError_proj(1) initial_state_def, rule NewStatusError_proj(2),
      simp add: NewStatusError_proj(3))

theorem decode_encode_other_codes_witness:
  "implements_StatusError (snd ex2v_new) \<and>
   StatusError_Code (fst ex2v_new) (snd ex2v_new) \<notin> mapped_codes \<and>
   ValidString (StatusError_Msg (fst ex2v_new) (snd ex2v_new)) \<and>
   st_Code (snd ex2v_enc) = codes_Internal \<and>
   StatusError_Code (fst ex2v_dec) (snd ex2v_dec) = CodeUserNotFound"
proof -
  have i: "implements_StatusError (snd ex2v_new)" by (simp add: ex2v_facts(1))
  have n: "StatusError_Code (fst ex2v_new) (snd ex2v_new) \<notin> mapped_codes"
    unfolding ex2v_facts(2) by (simp add: mapped_codes_def Code_defs)
  have v: "ValidString (StatusError_Msg (fst ex2v_new) (snd ex2v_new))"
    unfolding ex2v_facts(3) by (simp add: between_def)
  have "st_Code (snd ex2v_enc) = codes_Internal \<and>
        StatusError_Code (fst ex2v_dec) (snd ex2v_dec) = StatusError_Code (fst ex2v_new) (snd ex2v_new)"
    using decode_encode_other_codes [OF i n, of no_format]
    unfolding ex2v_enc_def ex2v_dec_def case_prod_beta
    by (simp only: v if_True)
  then show ?thesis using i n v unfolding ex2v_facts(2) by blast
qed

text \<open>
  C2 as the specification words it, for every Status Error: it fails for the error
  \<open>NewStatusError(CodeUserNotFound, m, nil)\<close> with \<open>m\<close> the single byte \<open>0xFF\<close>, whose code
  is not a mapped one and which decodes to \<open>CodeInternalError\<close>.
\<close>

lemma ex2_facts:
  "snd ex2_new = PStatusError 0"
  "StatusError_Code (fst ex2_new) (snd ex2_new) = CodeUserNotFound"
  "StatusError_Msg (fst ex2_new) (snd ex2_new) = [CHR 0xFF]"
  unfolding ex2_new_def
  by (simp add: NewStatusError_proj(1) initial_state_def, rule NewStatusError_proj(2),
      simp add: NewStatusError_proj(3))

theorem decode_encode_other_codes_counterexample:
  "StatusError_Code (fst ex2_new) (snd ex2_new) = CodeUserNotFound \<and>
   CodeUserNotFound \<notin> mapped_codes \<and>
   StatusError_Code (fst ex2_dec) (snd ex2_dec) = CodeInternalError \<and>
   CodeInternalError \<noteq> CodeUserNotFound"
proof -
  have i: "implements_StatusError (snd ex2_new)" by (simp add: ex2_facts(1))
  have n: "CodeUserNotFound \<notin> mapped_codes" by (simp add: mapped_codes_def Code_defs)
  have v: "\<not> ValidString [CHR 0xFF]" by (simp add: between_def)
  have "StatusError_Code (fst ex2_dec) (snd ex2_dec) =
          (if ValidString (StatusError_Msg (fst ex2_new) (snd ex2_new))
              \<or> StatusError_Code (fst ex2_new) (snd ex2_new) \<in> mapped_codes
           then StatusError_Code (fst ex2_new) (snd ex2_new) else CodeInternalError)"
    unfolding ex2_dec_def ex2_enc_def
    by (rule decode_encode(1) [OF i prod.collapse [symmetric] prod.collapse [symmetric]])
  then have "StatusError_Code (fst ex2_dec) (snd ex2_dec) = CodeInternalError"
    unfolding ex2_facts(2,3) by (simp only: n v if_False simp_thms)
  moreover have "CodeInternalError \<noteq> CodeUserNotFound" by (simp add: Code_defs)
  ultimately show ?thesis using n ex2_facts(2) by blast
qed

subsection \<open>The precedence of the attachment over the transport code\<close>

text \<open>
  C3, at a failing input. The status has the transport code \<open>NotFound\<close> and one attachment
  that carries the business code 1006 (\<open>CodeInternalError\<close>). The claim says the decoded
  code is the attachment's; the code decodes to \<open>CodeNotFound\<close>, because the test
  \<open>code == CodeInternalError\<close> that stands for "no attachment gave a code" also holds
  when an attachment gave 1006.
\<close>

theorem FromGRPCStatus_internal_error_attachment:
  "carries_code (hd (st_Details ex3_status)) \<and>
   st_Code ex3_status = codes_NotFound \<and>
   StatusError_Code (fst ex3_dec) (snd ex3_dec) = CodeNotFound \<and>
   CodeNotFound \<noteq> CodeInternalError"
proof -
  have sc: "scan_details no_format (st_Details ex3_status)
              (initial_state, CodeInternalError, st_Message ex3_status, None)
            = (initial_state, CodeInternalError, ''boom'', None)"
    by (simp add: ex3_status_def scan_detail_def int32_of_float64_numeral)
  have "StatusError_Code (fst ex3_dec) (snd ex3_dec) = code_of_grpc (st_Code ex3_status)"
    unfolding ex3_dec_def using FromGRPCStatus_proj(1) [OF sc] by simp
  then have "StatusError_Code (fst ex3_dec) (snd ex3_dec) = CodeNotFound"
    by (simp add: ex3_status_def code_of_grpc_def codes_defs)
  moreover have "carries_code (hd (st_Details ex3_status))"
    by (simp add: ex3_status_def carries_code_def)
  moreover have "CodeNotFound \<noteq> CodeInternalError" by (simp add: Code_defs)
  ultimately show ?thesis by (simp add: ex3_status_def)
qed

text \<open>What holds of the claim: without an attachment that carries a code, the decoded code
  is the inverse table's, which is \<open>CodeInternalError\<close> outside the five entries; and the
  last attachment that carries a code wins over the transport code unless its code is
  \<open>CodeInternalError\<close>.\<close>

lemma FromGRPCStatus_without_code:
  assumes "\<forall>d \<in> set (st_Details st). \<not> carries_code d"
  shows "StatusError_Code (fst (FromGRPCStatus fmt s st)) (snd (FromGRPCStatus fmt s st))
           = code_of_grpc (st_Code st)"
proof -
  obtain s1 code msg x where sc:
    "scan_details fmt (st_Details st) (s, CodeInternalError, st_Message st, None) = (s1, code, msg, x)"
    by (cases "scan_details fmt (st_Details st) (s, CodeInternalError, st_Message st, None)")
  from scan_details_metadata [OF assms sc] have "code = CodeInternalError" by simp
  with FromGRPCStatus_proj(1) [OF sc] show ?thesis by simp
qed

lemma FromGRPCStatus_last_code:
  assumes "st_Details st = ds @ AnyStruct structMap # ms"
    and "structMap ''business_code'' = Some (AFloat64 x)"
    and "\<forall>d \<in> set ms. \<not> carries_code d"
  shows "StatusError_Code (fst (FromGRPCStatus fmt s st)) (snd (FromGRPCStatus fmt s st))
           = (if int32_of_float64 x = CodeInternalError then code_of_grpc (st_Code st)
              else int32_of_float64 x)"
proof -
  obtain sa ca ma xa where pre:
    "scan_details fmt ds (s, CodeInternalError, st_Message st, None) = (sa, ca, ma, xa)"
    by (cases "scan_details fmt ds (s, CodeInternalError, st_Message st, None)")
  let ?m = "case structMap ''business_msg'' of Some (AString bizMsg) \<Rightarrow> bizMsg | _ \<Rightarrow> ma"
  obtain s1 code msg x1 where post:
    "scan_details fmt ms (sa, int32_of_float64 x, ?m, xa) = (s1, code, msg, x1)"
    by (cases "scan_details fmt ms (sa, int32_of_float64 x, ?m, xa)")
  from scan_details_metadata [OF assms(3) post] have c: "code = int32_of_float64 x" by simp
  have "scan_details fmt (st_Details st) (s, CodeInternalError, st_Message st, None)
          = (s1, code, msg, x1)"
    using assms(2) by (simp add: assms(1) scan_details_append pre scan_detail_code post)
  from FromGRPCStatus_proj(1) [OF this] show ?thesis by (simp add: c)
qed

section \<open>Status errors\<close>

text \<open>
  C9. \<open>NewStatusError(CodeNotFound, "", nil).Msg()\<close> is the message the registry gives for
  not-found (with the initial registry, the bytes \<open>msg_NotFound\<close>). For every Status Error
  that \<open>NewStatusError\<close> makes, \<open>Extra()\<close> returns a non-nil map, which is empty when no
  data was given (nil, a value of another type, or a nil string map). And whenever the
  stored map of a \<open>statusError\<close> is nil, \<open>Extra()\<close> returns a new, empty map.
\<close>

theorem NewStatusError_defaults:
  "(case NewStatusError fmt s CodeNotFound [] DataNil of (s1, e) \<Rightarrow>
      StatusError_Msg s1 e = Message (GetCodeDefinition s CodeNotFound) \<and>
      (CodeDefinitions s = CodeDefinitions_literal \<longrightarrow> StatusError_Msg s1 e = msg_NotFound)) \<and>
   (case NewStatusError fmt s c m d of (s1, e) \<Rightarrow>
      case StatusError_Extra s1 e of (s2, r) \<Rightarrow>
        r \<noteq> None \<and>
        (d = DataNil \<or> d = DataOther \<or> d = DataStringMap None \<longrightarrow> contents s2 r = Map.empty)) \<and>
   (ext_Extra (ext (statusErrors s ! a)) = None \<longrightarrow>
      (case statusError_Extra s a of (s', r) \<Rightarrow>
         r = Some (length (maps s)) \<and> contents s' r = Map.empty))"
proof (intro conjI)
  show "case NewStatusError fmt s CodeNotFound [] DataNil of (s1, e) \<Rightarrow>
      StatusError_Msg s1 e = Message (GetCodeDefinition s CodeNotFound) \<and>
      (CodeDefinitions s = CodeDefinitions_literal \<longrightarrow> StatusError_Msg s1 e = msg_NotFound)"
    by (simp add: case_prod_beta NewStatusError_proj(3) GetCodeDefinition_def
          CodeDefinitions_literal_def Code_defs)
  show "case NewStatusError fmt s c m d of (s1, e) \<Rightarrow>
      case StatusError_Extra s1 e of (s2, r) \<Rightarrow>
        r \<noteq> None \<and>
        (d = DataNil \<or> d = DataOther \<or> d = DataStringMap None \<longrightarrow> contents s2 r = Map.empty)"
    by (cases d)
       (auto simp: NewStatusError_def convert_data_def make_map_def new_statusError_def
          store_all_def statusError_Extra_def contents_def Let_def nth_append
          split: option.splits)
  show "ext_Extra (ext (statusErrors s ! a)) = None \<longrightarrow>
      (case statusError_Extra s a of (s', r) \<Rightarrow>
         r = Some (length (maps s)) \<and> contents s' r = Map.empty)"
    by (simp add: statusError_Extra_def make_map_def contents_def)
qed

lemma ex5_new_eval:
  "ex5_new = (\<lparr>CodeDefinitions = CodeDefinitions_literal,
               statusErrors = [\<lparr>statusCode = CodeNotFound, message = ''gone'',
                  ext = \<lparr>ext_IsAffectStability = False, ext_Extra = None\<rparr>\<rparr>],
               maps = [Map.empty], withStatuses = 0\<rparr>, PStatusError 0)"
  by (simp add: ex5_new_def NewStatusError_def convert_data_def make_map_def new_statusError_def
        initial_state_def GetCodeDefinition_def CodeDefinitions_literal_def Code_defs)

theorem NewStatusError_defaults_witness:
  "CodeDefinitions initial_state = CodeDefinitions_literal \<and>
   StatusError_Msg (fst ex9_new) (snd ex9_new) = msg_NotFound \<and>
   snd ex9_extra \<noteq> None \<and>
   contents (fst ex9_extra) (snd ex9_extra) = Map.empty \<and>
   ext_Extra (ext (statusErrors (fst ex5_new) ! 0)) = None \<and>
   snd (statusError_Extra (fst ex5_new) 0) = Some 1 \<and>
   contents (fst (statusError_Extra (fst ex5_new) 0)) (snd (statusError_Extra (fst ex5_new) 0))
     = Map.empty"
proof -
  have r: "CodeDefinitions initial_state = CodeDefinitions_literal"
    by (simp add: initial_state_def)
  have h: "ext_Extra (ext (statusErrors (fst ex5_new) ! 0)) = None"
    by (simp add: ex5_new_eval)
  have l: "length (maps (fst ex5_new)) = 1"
    by (simp add: ex5_new_eval)
  note T1 = NewStatusError_defaults [where fmt = show_string and s = initial_state
      and c = CodeNotFound and m = "[]" and d = DataNil and a = 0,
      unfolded case_prod_beta, folded ex9_new_def, folded ex9_extra_def]
  note T2 = NewStatusError_defaults [where fmt = show_string and s = "fst ex5_new"
      and c = CodeNotFound and m = "[]" and d = DataNil and a = 0,
      unfolded case_prod_beta l]
  from T1 r have "StatusError_Msg (fst ex9_new) (snd ex9_new) = msg_NotFound"
    "snd ex9_extra \<noteq> None" "contents (fst ex9_extra) (snd ex9_extra) = Map.empty"
    by blast+
  moreover from T2 h have "snd (statusError_Extra (fst ex5_new) 0) = Some 1"
    "contents (fst (statusError_Extra (fst ex5_new) 0)) (snd (statusError_Extra (fst ex5_new) 0))
     = Map.empty"
    by blast+
  ultimately show ?thesis using r h by blast
qed

section \<open>Stack-wrapped errors: metadata\<close>

lemma ex5_wrap_eval:
  "ex5_wrap = (\<lparr>CodeDefinitions = CodeDefinitions_literal,
               statusErrors = [\<lparr>statusCode = CodeNotFound, message = ''gone'',
                  ext = \<lparr>ext_IsAffectStability = False, ext_Extra = None\<rparr>\<rparr>],
               maps = [Map.empty], withStatuses = 1\<rparr>, Some ex5_w)"
  by (simp add: ex5_wrap_def ex5_new_eval WithStack_def new_withStatus_def ex5_w_def)

text \<open>
  C5, at a failing input. \<open>e = NewStatusError(CodeNotFound, "gone", map[string]string(nil))\<close>
  keeps the nil map as its metadata; \<open>WithStack(e)\<close> wraps it with the stack
  \<open>main.main\<close>. \<open>Extra()\<close> of the wrapper returns at its first statement with a new empty
  map: the result has no \<open>stack\<close> entry, although the wrapper has a stack.
\<close>

theorem withStatus_Extra_nil_metadata:
  "snd ex5_wrap = Some ex5_w \<and>
   withStatus_Stack ex5_w = ''main.main'' \<and>
   snd ex5_extra = Some 1 \<and>
   contents (fst ex5_extra) (snd ex5_extra) ''stack'' = None"
  by (simp add: ex5_extra_def ex5_wrap_eval ex5_w_def withStatus_Stack_def withStatus_Extra_def
        make_map_def contents_def)

text \<open>What holds of the claim. When the stored map is not nil, \<open>Extra()\<close> returns a new
  map with the stored entries and, for a non-empty stack, the \<open>stack\<close> entry. Writing to
  the returned map changes neither the stored metadata nor what the next \<open>Extra()\<close>
  returns.\<close>

lemma withStatus_Extra_copy:
  assumes "ext_Extra (ext (statusErrors s ! status w)) = Some inner" "inner < length (maps s)"
  shows "withStatus_Extra s w =
           (s\<lparr>maps := maps s @ [if stack w \<noteq> [] then (maps s ! inner)(''stack'' \<mapsto> stack w)
                                 else maps s ! inner]\<rparr>,
            Some (length (maps s)))"
  using assms
  by (simp add: withStatus_Extra_def make_map_def store_all_def nth_append)

lemma withStatus_Extra_stack:
  assumes "ext_Extra (ext (statusErrors s ! status w)) = Some inner" "inner < length (maps s)"
    and "stack w \<noteq> []"
  shows "contents (fst (withStatus_Extra s w)) (snd (withStatus_Extra s w)) ''stack''
           = Some (stack w)"
  using assms(3) by (simp add: withStatus_Extra_copy [OF assms(1,2)] contents_def)

lemma withStatus_Extra_defensive_copy:
  assumes "ext_Extra (ext (statusErrors s ! status w)) = Some inner" "inner < length (maps s)"
    and "withStatus_Extra s w = (s1, Some m)"
    and "s2 = s1\<lparr>maps := (maps s1)[m := f]\<rparr>"
  shows "statusErrors s2 = statusErrors s"
    and "maps s2 ! inner = maps s ! inner"
    and "contents (fst (withStatus_Extra s2 w)) (snd (withStatus_Extra s2 w))
           = contents s1 (Some m)"
proof -
  from assms(3) have s1: "s1 = s\<lparr>maps := maps s @ [if stack w \<noteq> [] then (maps s ! inner)(''stack'' \<mapsto> stack w)
                                 else maps s ! inner]\<rparr>" and m: "m = length (maps s)"
    by (simp_all add: withStatus_Extra_copy [OF assms(1,2)])
  show se: "statusErrors s2 = statusErrors s" by (simp add: assms(4) s1)
  show in2: "maps s2 ! inner = maps s ! inner"
    using assms(2) by (simp add: assms(4) s1 m nth_append)
  have a: "ext_Extra (ext (statusErrors s2 ! status w)) = Some inner" by (simp add: se assms(1))
  have b: "inner < length (maps s2)" using assms(2) by (simp add: assms(4) s1)
  show "contents (fst (withStatus_Extra s2 w)) (snd (withStatus_Extra s2 w))
           = contents s1 (Some m)"
    by (simp add: withStatus_Extra_copy [OF a b] contents_def in2) (simp add: s1 m)
qed

section \<open>Stack-wrapped errors: other implementations of \<open>StatusError\<close>\<close>

text \<open>
  C10. \<open>WithStack\<close> of a non-nil error that implements \<open>StatusError\<close>, is neither a
  \<open>*statusError\<close> nor a \<open>*withStatus\<close> and has neither in its \<open>Unwrap\<close> chain: the result
  is a new wrapper whose new \<open>statusError\<close> has the code, the message, the stability flag
  and the metadata map that the methods of the original return, whose cause is the
  original error, so that \<open>Cause()\<close> and \<open>Unwrap()\<close> return the original, and whose stack
  is the captured one.
\<close>

theorem WithStack_other_StatusError:
  assumes "As_withStatus (OtherStatus i v u) = None"
    and "As_statusError (OtherStatus i v u) = None"
  shows "(case WithStack s st (Some (OtherStatus i v u)) of (s', r) \<Rightarrow>
           r = Some (PWithStatus (withStatuses s) (length (statusErrors s)) st
                       (Some (OtherStatus i v u))) \<and>
           statusErrors s' = statusErrors s @
             [\<lparr>statusCode = v_Code v, message = v_Msg v,
               ext = \<lparr>ext_IsAffectStability = v_IsAffectStability v, ext_Extra = v_Extra v\<rparr>\<rparr>] \<and>
           (case r of None \<Rightarrow> False | Some w \<Rightarrow>
              withStatus_Code s' w = StatusError_Code s (OtherStatus i v u) \<and>
              withStatus_Msg s' w = StatusError_Msg s (OtherStatus i v u) \<and>
              withStatus_IsAffectStability s' w
                = StatusError_IsAffectStability s (OtherStatus i v u) \<and>
              ext_Extra (ext (statusErrors s' ! status w))
                = snd (StatusError_Extra s (OtherStatus i v u)) \<and>
              withStatus_Cause w = Some (OtherStatus i v u) \<and>
              withStatus_Unwrap w = Some (OtherStatus i v u) \<and>
              withStatus_Stack w = st))"
  using assms
  by (simp add: WithStack_def new_withStatus_def new_statusError_def withStatus_Code_def
        withStatus_Msg_def withStatus_IsAffectStability_def withStatus_Cause_def
        withStatus_Unwrap_def withStatus_Stack_def)

theorem WithStack_other_StatusError_witness:
  "As_withStatus ex10_err = None \<and> As_statusError ex10_err = None \<and>
   snd (WithStack initial_state ''main.main'' (Some ex10_err))
     = Some (PWithStatus 0 0 ''main.main'' (Some ex10_err)) \<and>
   statusErrors (fst (WithStack initial_state ''main.main'' (Some ex10_err)))
     = [\<lparr>statusCode = 4242, message = ''teapot'',
         ext = \<lparr>ext_IsAffectStability = False, ext_Extra = None\<rparr>\<rparr>]"
proof -
  have a: "As_withStatus ex10_err = None" "As_statusError ex10_err = None"
    by (simp_all add: ex10_err_def)
  from WithStack_other_StatusError [OF a [unfolded ex10_err_def], of initial_state "''main.main''"]
  show ?thesis using a
    by (simp add: ex10_err_def case_prod_beta initial_state_def)
qed

section \<open>Options\<close>

lemma ReplaceAll_name:
  "ReplaceAll ''user {name} not found'' ''{name}'' ''zampo'' = ''user zampo not found''"
  "ReplaceAll ''{name} and {name}'' ''{name}'' ''zampo'' = ''zampo and zampo''"
  by (simp_all add: ReplaceAll.simps)

lemma apply_Option_statusCode:
  "statusCode (statusErrors (apply_Option opt s a) ! b) = statusCode (statusErrors s ! b)"
proof (cases opt)
  case (Param k v)
  then show ?thesis
    by (cases "a < length (statusErrors s)"; cases "a = b") (simp_all add: list_update_beyond)
next
  case (Extra k v)
  then show ?thesis
    by (cases "a < length (statusErrors s)"; cases "a = b")
       (simp_all add: make_map_def store_all_def list_update_beyond split: option.splits)
qed

lemma apply_Options_statusCode:
  "statusCode (statusErrors (apply_Options opts s a) ! b) = statusCode (statusErrors s ! b)"
  by (induction opts arbitrary: s) (simp_all add: apply_Option_statusCode)

lemma NewWithStatus_unfold:
  "NewWithStatus s st c m opts =
     (apply_Options opts
        (s\<lparr>maps := maps s @ [Map.empty],
           statusErrors := statusErrors s @
             [\<lparr>statusCode = c, message = (if m = [] then GetMessage s c [] else m),
               ext = \<lparr>ext_IsAffectStability = IsAffectStability (GetCodeDefinition s c),
                      ext_Extra = Some (length (maps s))\<rparr>\<rparr>],
           withStatuses := Suc (withStatuses s)\<rparr>)
        (length (statusErrors s)),
      PWithStatus (withStatuses s) (length (statusErrors s)) st None)"
  by (simp add: NewWithStatus_def make_map_def new_statusError_def new_withStatus_def
        GetCodeDefinition_def)

text \<open>
  C8. \<open>Param("name", "zampo")\<close> applied to a wrapper whose message is
  \<open>user {name} not found\<close> makes the message \<open>user zampo not found\<close> (also as an option of
  \<open>NewWithStatus\<close>), and it replaces both occurrences in \<open>{name} and {name}\<close>. Two \<open>Extra\<close>
  options with distinct keys leave both keys in the metadata of the error, each with its
  value. No option changes the code of any error, and the code of the result of
  \<open>NewWithStatus\<close> is the code it was given, whatever the options.
\<close>

theorem options_behaviour:
  "(a < length (statusErrors s) \<and> message (statusErrors s ! a) = ''user {name} not found'' \<longrightarrow>
      message (statusErrors (apply_Option (Param ''name'' ''zampo'') s a) ! a)
        = ''user zampo not found'') \<and>
   (a < length (statusErrors s) \<and> message (statusErrors s ! a) = ''{name} and {name}'' \<longrightarrow>
      message (statusErrors (apply_Option (Param ''name'' ''zampo'') s a) ! a)
        = ''zampo and zampo'') \<and>
   (k1 \<noteq> k2 \<longrightarrow>
      (case NewWithStatus s st c m [Extra k1 v1, Extra k2 v2] of (s', w) \<Rightarrow>
         contents s' (ext_Extra (ext (statusErrors s' ! status w))) k1 = Some v1 \<and>
         contents s' (ext_Extra (ext (statusErrors s' ! status w))) k2 = Some v2)) \<and>
   (case NewWithStatus s st c ''user {name} not found'' [Param ''name'' ''zampo''] of
      (s', w) \<Rightarrow> StatusError_Msg s' w = ''user zampo not found'') \<and>
   statusCode (statusErrors (apply_Option opt s a) ! b) = statusCode (statusErrors s ! b) \<and>
   (case NewWithStatus s st c m opts of (s', w) \<Rightarrow> StatusError_Code s' w = c)"
proof (intro conjI)
  show "case NewWithStatus s st c ''user {name} not found'' [Param ''name'' ''zampo''] of
      (s', w) \<Rightarrow> StatusError_Msg s' w = ''user zampo not found''"
    by (simp add: NewWithStatus_unfold withStatus_Msg_def ReplaceAll_name(1))
  show "a < length (statusErrors s) \<and> message (statusErrors s ! a) = ''user {name} not found'' \<longrightarrow>
      message (statusErrors (apply_Option (Param ''name'' ''zampo'') s a) ! a)
        = ''user zampo not found''"
    by (simp add: ReplaceAll_name(1))
  show "a < length (statusErrors s) \<and> message (statusErrors s ! a) = ''{name} and {name}'' \<longrightarrow>
      message (statusErrors (apply_Option (Param ''name'' ''zampo'') s a) ! a)
        = ''zampo and zampo''"
    by (simp add: ReplaceAll_name(2))
  show "k1 \<noteq> k2 \<longrightarrow>
      (case NewWithStatus s st c m [Extra k1 v1, Extra k2 v2] of (s', w) \<Rightarrow>
         contents s' (ext_Extra (ext (statusErrors s' ! status w))) k1 = Some v1 \<and>
         contents s' (ext_Extra (ext (statusErrors s' ! status w))) k2 = Some v2)"
    by (simp add: NewWithStatus_unfold store_all_def contents_def nth_append)
  show "statusCode (statusErrors (apply_Option opt s a) ! b) = statusCode (statusErrors s ! b)"
    by (rule apply_Option_statusCode)
  show "case NewWithStatus s st c m opts of (s', w) \<Rightarrow> StatusError_Code s' w = c"
    by (simp add: NewWithStatus_unfold withStatus_Code_def apply_Options_statusCode)
qed

lemma ex8_facts:
  "length (statusErrors (fst ex8_user)) = 1"
  "message (statusErrors (fst ex8_user) ! 0) = ''user {name} not found''"
  "length (statusErrors (fst ex8_twice)) = 1"
  "message (statusErrors (fst ex8_twice) ! 0) = ''{name} and {name}''"
  by (simp_all add: ex8_user_def ex8_twice_def NewWithStatus_unfold initial_state_def)

theorem options_behaviour_witness:
  "0 < length (statusErrors (fst ex8_user)) \<and>
   message (statusErrors (fst ex8_user) ! 0) = ''user {name} not found'' \<and>
   message (statusErrors (apply_Option (Param ''name'' ''zampo'') (fst ex8_user) 0) ! 0)
     = ''user zampo not found'' \<and>
   0 < length (statusErrors (fst ex8_twice)) \<and>
   message (statusErrors (fst ex8_twice) ! 0) = ''{name} and {name}'' \<and>
   message (statusErrors (apply_Option (Param ''name'' ''zampo'') (fst ex8_twice) 0) ! 0)
     = ''zampo and zampo'' \<and>
   ''key1'' \<noteq> ''key2'' \<and>
   contents (fst ex8_extras)
     (ext_Extra (ext (statusErrors (fst ex8_extras) ! status (snd ex8_extras)))) ''key1''
     = Some ''value1'' \<and>
   contents (fst ex8_extras)
     (ext_Extra (ext (statusErrors (fst ex8_extras) ! status (snd ex8_extras)))) ''key2''
     = Some ''value2''"
proof -
  have k: "''key1'' \<noteq> ''key2''" by simp
  have u: "0 < length (statusErrors (fst ex8_user))"
    "0 < length (statusErrors (fst ex8_twice))"
    by (simp_all add: ex8_facts)
  note T1 = options_behaviour [where s = "fst ex8_user" and a = 0]
  note T2 = options_behaviour [where s = "fst ex8_twice" and a = 0]
  note T3 = options_behaviour [where s = initial_state and st = "''main.main''"
      and c = CodeNotFound and m = "''gone''" and ?k1.0 = "''key1''" and ?v1.0 = "''value1''"
      and ?k2.0 = "''key2''" and ?v2.0 = "''value2''", unfolded case_prod_beta,
      folded ex8_extras_def]
  from T1 u(1) ex8_facts(2)
  have a: "message (statusErrors (apply_Option (Param ''name'' ''zampo'') (fst ex8_user) 0) ! 0)
     = ''user zampo not found''" by blast
  from T2 u(2) ex8_facts(4)
  have b: "message (statusErrors (apply_Option (Param ''name'' ''zampo'') (fst ex8_twice) 0) ! 0)
     = ''zampo and zampo''" by blast
  from T3 k
  have c: "contents (fst ex8_extras)
     (ext_Extra (ext (statusErrors (fst ex8_extras) ! status (snd ex8_extras)))) ''key1''
     = Some ''value1''"
    "contents (fst ex8_extras)
     (ext_Extra (ext (statusErrors (fst ex8_extras) ! status (snd ex8_extras)))) ''key2''
     = Some ''value2''" by blast+
  from a b c k u ex8_facts(2,4) show ?thesis by blast
qed

text \<open>The metadata as \<open>Extra()\<close> of the wrapper returns it has the two entries as well,
  except under the key \<open>stack\<close>, where it has the captured stack.\<close>

lemma NewWithStatus_Extra_view:
  assumes "k1 \<noteq> k2"
  shows "(case NewWithStatus s st c m [Extra k1 v1, Extra k2 v2] of (s', w) \<Rightarrow>
          case StatusError_Extra s' w of (s'', r) \<Rightarrow>
            contents s'' r k1 = (if k1 = ''stack'' \<and> st \<noteq> [] then Some st else Some v1) \<and>
            contents s'' r k2 = (if k2 = ''stack'' \<and> st \<noteq> [] then Some st else Some v2))"
  using assms
  by (simp add: NewWithStatus_unfold store_all_def withStatus_Extra_def make_map_def
        contents_def nth_append map_add_def)

end
